theory Spec2Isabelle
  imports Main
begin

section \<open>The demangling wrapper of \<^verbatim>\<open>util/demangle.py\<close>\<close>

text \<open>
  The module holds one function, \<^verbatim>\<open>demangle(names)\<close>. It starts the program
  \<^verbatim>\<open>c++filt\<close> with the names as command-line arguments, reads everything the
  program writes to its standard output as text, splits that text at the newline
  character, asserts that there is one segment more than there are names, and returns
  all segments but the last.

  Python strings are modelled as \<^typ>\<open>string\<close>; the only character the function
  looks at is the newline, \<^term>\<open>CHR ''\<newline>''\<close>. Python's list lengths are
  unbounded integers, here \<^typ>\<open>nat\<close>.
\<close>

subsection \<open>Errors\<close>

text \<open>
  Two exceptions can leave \<^verbatim>\<open>demangle\<close>: the \<^verbatim>\<open>assert\<close> statement raises
  \<^verbatim>\<open>AssertionError\<close> (the interpreter runs with assertions enabled, its default),
  and \<^verbatim>\<open>subprocess.Popen\<close> raises an \<^verbatim>\<open>OSError\<close> when the program cannot be
  started. Nothing in the function catches either of them.
\<close>

datatype error = AssertionError | OSError

subsection \<open>The external process\<close>

text \<open>
  What a finished child process leaves behind: the text captured from its standard
  output (\<^verbatim>\<open>stdout=subprocess.PIPE, text=True\<close>, as \<^verbatim>\<open>communicate()\<close> returns
  it) and its exit status. Standard error is not piped, so the second component of
  \<^verbatim>\<open>communicate()\<close> is \<^verbatim>\<open>None\<close> and is dropped by the source.
\<close>

record completed =
  stdout :: string
  returncode :: int

text \<open>
  Starting a process and waiting for it is an effect on the world outside the
  interpreter. The world is an explicit state of type \<^typ>\<open>'w\<close>:
  \<^verbatim>\<open>Popen(args, ...)\<close> followed by \<^verbatim>\<open>communicate()\<close> takes the argument vector
  and the world, and gives back the finished process (or \<^term>\<open>None\<close> when the
  program could not be started) and the world afterwards. The program behind the
  name \<^verbatim>\<open>c++filt\<close> is not part of the module, so it is a parameter of the model.
\<close>

type_synonym 'w subprocess = "string list \<Rightarrow> 'w \<Rightarrow> completed option \<times> 'w"

subsection \<open>Splitting text at a separator\<close>

text \<open>
  \<^verbatim>\<open>str.split(sep)\<close> for a separator of one character: the text is scanned from
  the left, every occurrence of the separator closes the current segment, and the end
  of the text closes the last one. The result is never empty:
  \<^verbatim>\<open>"".split("\n") == [""]\<close>, and a text that ends with the separator has an empty
  last segment.
\<close>

fun split_loop :: "char \<Rightarrow> string \<Rightarrow> string \<Rightarrow> string list" where
  "split_loop sep cur [] = [cur]"
| "split_loop sep cur (c # cs) =
     (if c = sep then cur # split_loop sep [] cs
      else split_loop sep (cur @ [c]) cs)"

definition str_split :: "char \<Rightarrow> string \<Rightarrow> string list" where
  "str_split sep s = split_loop sep [] s"

subsection \<open>The function \<^verbatim>\<open>demangle\<close>\<close>

text \<open>
  \<^verbatim>\<open>
  def demangle(names):
      args = ['c++filt']
      args.extend(names)
      pipe = subprocess.Popen(args, stdin=subprocess.PIPE,
                              stdout=subprocess.PIPE, text=True)
      stdout, _ = pipe.communicate()
      demangled = stdout.split("\n")
      assert len(demangled) == len(names) + 1
      return demangled[:-1]
  \<close>
  The slice \<^verbatim>\<open>demangled[:-1]\<close> is the list without its last element, and the
  empty list for the empty list: \<^const>\<open>butlast\<close>. The exit status of the process
  is never read.
\<close>

definition demangle :: "'w subprocess \<Rightarrow> string list \<Rightarrow> 'w \<Rightarrow> (error + string list) \<times> 'w" where
  "demangle popen names w =
     (let args = [''c++filt''] @ names;
          (pipe, w') = popen args w
      in case pipe of
           None \<Rightarrow> (Inl OSError, w')
         | Some p \<Rightarrow>
             (let demangled = str_split CHR ''\<newline>'' (stdout p)
              in if length demangled = length names + 1
                 then (Inr (butlast demangled), w')
                 else (Inl AssertionError, w')))"

subsection \<open>Tool output made of lines, and stand-ins for the tool\<close>

text \<open>
  The text of a tool that writes the given lines one after the other, each followed by
  a newline character.
\<close>

definition unlines :: "string list \<Rightarrow> string" where
  "unlines ls = concat (map (\<lambda>l. l @ ''\<newline>'') ls)"

text \<open>
  A stand-in for the external program, used to run \<^const>\<open>demangle\<close> on concrete
  inputs: whatever its arguments, it writes the text \<open>out\<close>, exits with status
  \<open>rc\<close> and leaves the world as it was.
\<close>

definition fake_tool :: "string \<Rightarrow> int \<Rightarrow> unit subprocess" where
  "fake_tool out rc args w = (Some \<lparr>stdout = out, returncode = rc\<rparr>, w)"

text \<open>
  A stand-in that behaves like \<^verbatim>\<open>c++filt\<close> on names it cannot demangle: it writes every
  argument after the program name on a line of its own and exits with status 0. The
  world counts the runs, so two runs never start in the same world.
\<close>

definition echo_tool :: "nat subprocess" where
  "echo_tool args n = (Some \<lparr>stdout = unlines (tl args), returncode = 0\<rparr>, Suc n)"

text \<open>
  A stand-in whose output changes from one run to the next: the world is a counter of
  the runs so far, and run number \<open>n\<close> writes \<open>n\<close> empty lines.
\<close>

definition counting_tool :: "nat subprocess" where
  "counting_tool args n = (Some \<lparr>stdout = replicate n CHR ''\<newline>'', returncode = 0\<rparr>, Suc n)"

section \<open>Properties of splitting\<close>

lemma split_loop_length:
  "length (split_loop sep cur s) = count_list s sep + 1"
  by (induction s arbitrary: cur) simp_all

lemma str_split_length: "length (str_split sep s) = count_list s sep + 1"
  by (simp add: str_split_def split_loop_length)

lemma split_loop_no_sep:
  "sep \<notin> set cur \<Longrightarrow> seg \<in> set (split_loop sep cur s) \<Longrightarrow> sep \<notin> set seg"
proof (induction s arbitrary: cur)
  case Nil
  then show ?case by simp
next
  case (Cons c cs)
  show ?case
  proof (cases "c = sep")
    case True
    with Cons.prems have "seg = cur \<or> seg \<in> set (split_loop sep [] cs)" by simp
    then show ?thesis using Cons.prems(1) Cons.IH [of "[]"] by auto
  next
    case False
    with Cons.prems have "seg \<in> set (split_loop sep (cur @ [c]) cs)" by simp
    moreover have "sep \<notin> set (cur @ [c])" using False Cons.prems(1) by auto
    ultimately show ?thesis using Cons.IH by blast
  qed
qed

lemma str_split_no_sep: "seg \<in> set (str_split sep s) \<Longrightarrow> sep \<notin> set seg"
  unfolding str_split_def using split_loop_no_sep [of sep "[]"] by simp

lemma split_loop_plain: "sep \<notin> set l \<Longrightarrow> split_loop sep cur l = [cur @ l]"
  by (induction l arbitrary: cur) auto

lemma split_loop_line:
  "sep \<notin> set l \<Longrightarrow> split_loop sep cur (l @ sep # rest) = (cur @ l) # split_loop sep [] rest"
  by (induction l arbitrary: cur) auto

lemma str_split_plain: "sep \<notin> set l \<Longrightarrow> str_split sep l = [l]"
  by (simp add: str_split_def split_loop_plain)

lemma str_split_line:
  "sep \<notin> set l \<Longrightarrow> str_split sep (l @ sep # rest) = l # str_split sep rest"
  by (simp add: str_split_def split_loop_line)

lemma str_split_lines:
  "(\<And>l. l \<in> set ls \<Longrightarrow> sep \<notin> set l) \<Longrightarrow>
     str_split sep (concat (map (\<lambda>l. l @ [sep]) ls) @ rest) = ls @ str_split sep rest"
  by (induction ls) (simp_all add: str_split_line)

lemma str_split_unlines:
  assumes "\<And>l. l \<in> set ls \<Longrightarrow> CHR ''\<newline>'' \<notin> set l"
  shows "str_split CHR ''\<newline>'' (unlines ls) = ls @ [[]]"
  using str_split_lines [of ls "CHR ''\<newline>''" "[]"] assms
  by (simp add: unlines_def str_split_def)

text \<open>
  Splitting loses nothing: the segments, put back together with the separator between
  them, are the text.
\<close>

lemma split_loop_join:
  "concat (map (\<lambda>l. l @ [sep]) (butlast (split_loop sep cur s))) @ last (split_loop sep cur s)
     = cur @ s"
proof (induction s arbitrary: cur)
  case Nil
  show ?case by simp
next
  case (Cons c cs)
  have ne: "\<And>x. split_loop sep x cs \<noteq> []"
    using split_loop_length [of sep _ cs] by (metis add_is_0 length_0_conv zero_neq_one)
  show ?case
  proof (cases "c = sep")
    case True
    then show ?thesis using Cons.IH [of "[]"] ne by simp
  next
    case False
    then show ?thesis using Cons.IH [of "cur @ [c]"] by simp
  qed
qed

lemma str_split_join:
  "concat (map (\<lambda>l. l @ [sep]) (butlast (str_split sep s))) @ last (str_split sep s) = s"
  using split_loop_join [of sep "[]" s] by (simp add: str_split_def)

section \<open>Running \<^const>\<open>demangle\<close>\<close>

lemma demangle_started:
  assumes "popen (''c++filt'' # names) w = (Some p, w')"
  shows "demangle popen names w =
    (if length (str_split CHR ''\<newline>'' (stdout p)) = length names + 1
     then Inr (butlast (str_split CHR ''\<newline>'' (stdout p)))
     else Inl AssertionError, w')"
  using assms by (simp add: demangle_def Let_def)

lemma demangle_not_started:
  assumes "popen (''c++filt'' # names) w = (None, w')"
  shows "demangle popen names w = (Inl OSError, w')"
  using assms by (simp add: demangle_def)

lemma demangle_fake_tool:
  "fst (demangle (fake_tool out rc) names w) =
    (if count_list out CHR ''\<newline>'' = length names
     then Inr (butlast (str_split CHR ''\<newline>'' out))
     else Inl AssertionError)"
  by (simp add: demangle_def fake_tool_def str_split_length)

lemma count_list_unlines:
  assumes "\<And>l. l \<in> set ls \<Longrightarrow> CHR ''\<newline>'' \<notin> set l"
  shows "count_list (unlines ls) CHR ''\<newline>'' = length ls"
  using str_split_length [of "CHR ''\<newline>''" "unlines ls"] str_split_unlines [OF assms]
  by simp

lemma unlines_snoc: "unlines (ls @ [l]) = unlines ls @ l @ ''\<newline>''"
  by (simp add: unlines_def)

lemma count_list_butlast_unlines:
  assumes "\<And>l. l \<in> set ls \<Longrightarrow> CHR ''\<newline>'' \<notin> set l" and "ls \<noteq> []"
  shows "Suc (count_list (butlast (unlines ls)) CHR ''\<newline>'') = length ls"
proof -
  obtain ls' l where ls: "ls = ls' @ [l]"
    using assms(2) by (metis append_butlast_last_id)
  have "unlines ls = butlast (unlines ls) @ ''\<newline>''"
    by (simp add: ls unlines_snoc butlast_append)
  then have "count_list (unlines ls) CHR ''\<newline>''
      = count_list (butlast (unlines ls) @ ''\<newline>'') CHR ''\<newline>''"
    by simp
  then show ?thesis
    using count_list_unlines [OF assms(1)] by simp
qed

section \<open>The claims\<close>

text \<open>
  C1. For every sequence of names, the empty one included: when the tool is well
  behaved, that is, it writes exactly one line per name and ends each line with a
  newline, \<^verbatim>\<open>demangle(names)\<close> returns a sequence as long as \<open>names\<close>.
\<close>

theorem demangle_length_well_behaved:
  assumes "popen (''c++filt'' # names) w = (Some p, w')"
    and "length ls = length names"
    and "\<forall>l \<in> set ls. CHR ''\<newline>'' \<notin> set l"
    and "stdout p = unlines ls"
  shows "\<exists>r. fst (demangle popen names w) = Inr r \<and> length r = length names"
proof -
  have "str_split CHR ''\<newline>'' (stdout p) = ls @ [[]]"
    using assms(3,4) by (simp add: str_split_unlines)
  then show ?thesis
    using assms(2) by (simp add: demangle_started [of popen names w p w', OF assms(1)])
qed

theorem demangle_length_well_behaved_witness:
  "(\<exists>r. fst (demangle (fake_tool (unlines [''f()'', ''g(int)'']) 0) [''_Z1fv'', ''_Z1gi''] ())
          = Inr r \<and> length r = length [''_Z1fv'', ''_Z1gi''])
   \<and> (\<exists>r. fst (demangle (fake_tool (unlines []) 0) [] ()) = Inr r \<and> length r = length ([] :: string list))"
  using
    demangle_length_well_behaved [of "fake_tool (unlines [''f()'', ''g(int)'']) 0"
      "[''_Z1fv'', ''_Z1gi'']" "()" "\<lparr>stdout = unlines [''f()'', ''g(int)''], returncode = 0\<rparr>" "()"
      "[''f()'', ''g(int)'']"]
    demangle_length_well_behaved [of "fake_tool (unlines []) 0"
      "[]" "()" "\<lparr>stdout = unlines [], returncode = 0\<rparr>" "()" "[]"]
  by (simp add: fake_tool_def)

text \<open>
  C2. For every sequence of names and every captured output text: when splitting the
  text at the newline characters does not give exactly \<open>len(names) + 1\<close> segments,
  \<^verbatim>\<open>demangle(names)\<close> fails with the assertion error (the spec's ContractViolation)
  and returns no sequence.
\<close>

theorem demangle_misaligned_fails:
  assumes "popen (''c++filt'' # names) w = (Some p, w')"
    and "length (str_split CHR ''\<newline>'' (stdout p)) \<noteq> length names + 1"
  shows "fst (demangle popen names w) = Inl AssertionError"
  using assms(2) by (simp add: demangle_started [of popen names w p w', OF assms(1)])

theorem demangle_misaligned_fails_witness:
  "fst (demangle (fake_tool ''c++filt: out of memory'' 1) [''_Z1fv''] ()) = Inl AssertionError"
  using demangle_misaligned_fails [of "fake_tool ''c++filt: out of memory'' 1" "[''_Z1fv'']" "()"
      "\<lparr>stdout = ''c++filt: out of memory'', returncode = 1\<rparr>" "()"]
  by (simp add: fake_tool_def str_split_length)

text \<open>
  C3, as amended. For every sequence of names and every number \<open>k\<close>: when the tool
  writes exactly \<open>k\<close> lines, each ended by a newline, and \<open>k\<close> differs from
  \<open>len(names)\<close>, \<^verbatim>\<open>demangle(names)\<close> fails with the assertion error; the call
  returns exactly when the tool writes \<open>len(names)\<close> lines. Here \<open>k\<close> is the
  length of \<open>ls\<close>. (The claim as written puts the boundary at \<open>len(names) + 1\<close>
  lines, which is the number of segments, not of lines.)
\<close>

theorem demangle_line_count:
  assumes "popen (''c++filt'' # names) w = (Some p, w')"
    and "\<forall>l \<in> set ls. CHR ''\<newline>'' \<notin> set l"
    and "stdout p = unlines ls"
  shows "(length ls \<noteq> length names \<longrightarrow> fst (demangle popen names w) = Inl AssertionError)
       \<and> ((\<exists>r. fst (demangle popen names w) = Inr r) \<longleftrightarrow> length ls = length names)"
proof -
  have "str_split CHR ''\<newline>'' (stdout p) = ls @ [[]]"
    using assms(2,3) by (simp add: str_split_unlines)
  then show ?thesis
    by (simp add: demangle_started [of popen names w p w', OF assms(1)])
qed

theorem demangle_line_count_witness:
  "fst (demangle (fake_tool (unlines [''f()'', ''g(int)'']) 0) [''_Z1fv''] ()) = Inl AssertionError
   \<and> (\<exists>r. fst (demangle (fake_tool (unlines [''f()'']) 0) [''_Z1fv''] ()) = Inr r)"
  using
    demangle_line_count [of "fake_tool (unlines [''f()'', ''g(int)'']) 0" "[''_Z1fv'']" "()"
      "\<lparr>stdout = unlines [''f()'', ''g(int)''], returncode = 0\<rparr>" "()" "[''f()'', ''g(int)'']"]
    demangle_line_count [of "fake_tool (unlines [''f()'']) 0" "[''_Z1fv'']" "()"
      "\<lparr>stdout = unlines [''f()''], returncode = 0\<rparr>" "()" "[''f()'']"]
  by (simp add: fake_tool_def)

text \<open>
  The claim C3 as written fails: for one name and a tool that writes exactly one
  newline-terminated line, \<open>k = 1\<close> differs from \<open>len(names) + 1 = 2\<close>, and the call
  returns that line; for a tool that writes \<open>len(names) + 1 = 2\<close> lines the call
  fails.
\<close>

theorem demangle_line_count_counterexample:
  "length [''f()''] \<noteq> length [''_Z1fv''] + 1
   \<and> fst (demangle (fake_tool (unlines [''f()'']) 0) [''_Z1fv''] ()) = Inr [''f()'']
   \<and> length [''f()'', ''g(int)''] = length [''_Z1fv''] + 1
   \<and> fst (demangle (fake_tool (unlines [''f()'', ''g(int)'']) 0) [''_Z1fv''] ()) = Inl AssertionError"
  by (simp add: demangle_fake_tool unlines_def str_split_def)

text \<open>
  C4. For every sequence of names and every captured output text: when the alignment
  check passes, \<^verbatim>\<open>demangle(names)\<close> returns the segments of the text split at the
  newline characters, in their order, without the final segment. The returned
  segments, each followed by a newline, and then the dropped final segment, make up
  the captured text again. (The final segment is dropped whatever it holds; it is empty
  when the text ends with a newline.)
\<close>

theorem demangle_returns_split_butlast:
  assumes "popen (''c++filt'' # names) w = (Some p, w')"
    and "length (str_split CHR ''\<newline>'' (stdout p)) = length names + 1"
  shows "fst (demangle popen names w) = Inr (butlast (str_split CHR ''\<newline>'' (stdout p)))
       \<and> unlines (butlast (str_split CHR ''\<newline>'' (stdout p)))
           @ last (str_split CHR ''\<newline>'' (stdout p)) = stdout p"
  using assms(2) str_split_join [of "CHR ''\<newline>''" "stdout p"]
  by (simp add: demangle_started [of popen names w p w', OF assms(1)] unlines_def)

theorem demangle_returns_split_butlast_witness:
  "fst (demangle (fake_tool ''f()\<newline>g(int)\<newline>'' 0) [''_Z1fv'', ''_Z1gi''] ())
     = Inr [''f()'', ''g(int)'']"
  using demangle_returns_split_butlast [of "fake_tool ''f()\<newline>g(int)\<newline>'' 0"
      "[''_Z1fv'', ''_Z1gi'']" "()" "\<lparr>stdout = ''f()\<newline>g(int)\<newline>'', returncode = 0\<rparr>" "()"]
  by (simp add: fake_tool_def str_split_def)

text \<open>
  The final segment need not be empty when the check passes: a text that goes on
  after its last newline has the right number of segments too, and what follows the
  last newline is dropped.
\<close>

lemma demangle_drops_final_segment:
  "fst (demangle (fake_tool ''f()\<newline>c++filt: out of memory'' 1) [''_Z1fv''] ()) = Inr [''f()'']"
  by (simp add: demangle_fake_tool str_split_def)

text \<open>
  C5, as amended. \<^verbatim>\<open>demangle([])\<close> returns the empty sequence when the text the tool
  writes to standard output holds no newline character (in particular when the tool
  writes nothing), and fails with the assertion error when that text holds a newline.
\<close>

theorem demangle_empty:
  assumes "popen [''c++filt''] w = (Some p, w')"
  shows "fst (demangle popen [] w) =
    (if CHR ''\<newline>'' \<in> set (stdout p) then Inl AssertionError else Inr [])"
proof (cases "CHR ''\<newline>'' \<in> set (stdout p)")
  case True
  then have "count_list (stdout p) CHR ''\<newline>'' \<noteq> 0"
    by (simp add: count_list_0_iff)
  then show ?thesis
    using True by (simp add: demangle_started [of popen "[]" w p w', OF assms] str_split_length)
next
  case False
  then show ?thesis
    by (simp add: demangle_started [of popen "[]" w p w', OF assms] str_split_plain)
qed

theorem demangle_empty_witness:
  "fst (demangle (fake_tool [] 0) [] ()) = Inr []
   \<and> fst (demangle (fake_tool ''Usage: c++filt [options] [mangled names]\<newline>'' 1) [] ())
       = Inl AssertionError"
  using demangle_empty [of "fake_tool [] 0" "()" "\<lparr>stdout = [], returncode = 0\<rparr>" "()"]
    demangle_empty [of "fake_tool ''Usage: c++filt [options] [mangled names]\<newline>'' 1" "()"
      "\<lparr>stdout = ''Usage: c++filt [options] [mangled names]\<newline>'', returncode = 1\<rparr>" "()"]
  by (simp add: fake_tool_def)

text \<open>
  The claim C5 as written fails: for the empty sequence of names and a tool that writes
  a single newline, the call fails with the assertion error.
\<close>

theorem demangle_empty_counterexample:
  "fst (demangle (fake_tool ''\<newline>'' 0) [] ()) = Inl AssertionError"
  by (simp add: demangle_fake_tool)

text \<open>
  C6. For every plain string \<open>x\<close> without a newline: when the tool echoes what it
  cannot demangle, that is, it writes \<open>x\<close> followed by a newline, then
  \<^verbatim>\<open>demangle([x]) == [x]\<close>.
\<close>

theorem demangle_echo_single:
  assumes "CHR ''\<newline>'' \<notin> set x"
    and "popen [''c++filt'', x] w = (Some p, w')"
    and "stdout p = x @ ''\<newline>''"
  shows "fst (demangle popen [x] w) = Inr [x]"
proof -
  have "str_split CHR ''\<newline>'' (stdout p) = [x, []]"
    using assms(1,3) str_split_line [of "CHR ''\<newline>''" x "[]"]
    by (simp add: str_split_def)
  then show ?thesis
    by (simp add: demangle_started [of popen "[x]" w p w', OF assms(2)])
qed

theorem demangle_echo_single_witness:
  "fst (demangle echo_tool [''main''] 0) = Inr [''main'']"
  using demangle_echo_single [of "''main''" echo_tool 0
      "\<lparr>stdout = ''main\<newline>'', returncode = 0\<rparr>" "Suc 0"]
  by (simp add: echo_tool_def unlines_def)

text \<open>
  C7. For every sequence of names: when the tool is deterministic, that is, for the
  same argument vector it starts or fails to start and writes the same text in every
  world it is run in, two calls of \<^verbatim>\<open>demangle\<close> with the same names give the same
  result. This holds for calls made in any two worlds, and so for a second call made
  in the world the first call left behind.
\<close>

theorem demangle_deterministic:
  assumes "\<forall>args w1 w2. map_option stdout (fst (popen args w1)) = map_option stdout (fst (popen args w2))"
  shows "fst (demangle popen names w2) = fst (demangle popen names w1)
       \<and> fst (demangle popen names (snd (demangle popen names w1))) = fst (demangle popen names w1)"
proof -
  have same: "fst (demangle popen names u) = fst (demangle popen names v)" for u v
  proof -
    obtain a u' where u: "popen (''c++filt'' # names) u = (a, u')"
      by (cases "popen (''c++filt'' # names) u")
    obtain b v' where v: "popen (''c++filt'' # names) v = (b, v')"
      by (cases "popen (''c++filt'' # names) v")
    have ab: "map_option stdout a = map_option stdout b"
      using assms [rule_format, of "''c++filt'' # names" u v] by (simp add: u v)
    show ?thesis
    proof (cases a)
      case None
      then have "b = None" using ab by simp
      then show ?thesis using None u v by (simp add: demangle_def)
    next
      case (Some p)
      then obtain q where q: "b = Some q" and pq: "stdout p = stdout q"
        using ab by (cases b) auto
      show ?thesis
        using u v Some q pq by (simp add: demangle_def Let_def)
    qed
  qed
  show ?thesis using same by simp
qed

theorem demangle_deterministic_witness:
  "fst (demangle echo_tool [''main'', ''exit''] 7) = fst (demangle echo_tool [''main'', ''exit''] 0)
   \<and> fst (demangle echo_tool [''main'', ''exit''] (snd (demangle echo_tool [''main'', ''exit''] 0)))
       = fst (demangle echo_tool [''main'', ''exit''] 0)"
  using demangle_deterministic [of echo_tool "[''main'', ''exit'']" 7 0]
  by (simp add: echo_tool_def)

text \<open>
  Without determinism the two results can differ: the tool that writes one more empty
  line on every run satisfies the alignment check on its second run only.
\<close>

lemma demangle_counting_tool:
  "fst (demangle counting_tool [''_Z1fv''] 0) = Inl AssertionError"
  "fst (demangle counting_tool [''_Z1fv''] (snd (demangle counting_tool [''_Z1fv''] 0))) = Inr [[]]"
  by (simp_all add: demangle_def counting_tool_def str_split_def)

text \<open>
  C8. \<^verbatim>\<open>demangle\<close> does not look at the exit status of the tool: for every sequence
  of names, two runs in which the tool writes the same text give the same result,
  whatever the two exit statuses are; so an exit status other than zero alone never
  makes the call fail.
\<close>

theorem demangle_ignores_returncode:
  assumes "popen1 (''c++filt'' # names) w1 = (Some p1, w1')"
    and "popen2 (''c++filt'' # names) w2 = (Some p2, w2')"
    and "stdout p1 = stdout p2"
  shows "fst (demangle popen1 names w1) = fst (demangle popen2 names w2)"
  using assms(3)
  by (simp add: demangle_started [of popen1 names w1 p1 w1', OF assms(1)]
      demangle_started [of popen2 names w2 p2 w2', OF assms(2)])

theorem demangle_ignores_returncode_witness:
  "fst (demangle (fake_tool ''f()\<newline>'' 0) [''_Z1fv''] ())
     = fst (demangle (fake_tool ''f()\<newline>'' 139) [''_Z1fv''] ())
   \<and> fst (demangle (fake_tool ''f()\<newline>'' 139) [''_Z1fv''] ()) = Inr [''f()'']"
  using demangle_ignores_returncode [of "fake_tool ''f()\<newline>'' 0" "[''_Z1fv'']" "()"
      "\<lparr>stdout = ''f()\<newline>'', returncode = 0\<rparr>" "()" "fake_tool ''f()\<newline>'' 139" "()"
      "\<lparr>stdout = ''f()\<newline>'', returncode = 139\<rparr>" "()"]
  by (simp add: fake_tool_def demangle_def str_split_def)

text \<open>
  C9. Every element of the sequence that a successful call of \<^verbatim>\<open>demangle\<close> returns
  is free of newline characters.
\<close>

theorem demangle_result_no_newline:
  assumes "fst (demangle popen names w) = Inr r"
    and "x \<in> set r"
  shows "CHR ''\<newline>'' \<notin> set x"
proof -
  obtain a w' where run: "popen (''c++filt'' # names) w = (a, w')"
    by (cases "popen (''c++filt'' # names) w")
  show ?thesis
  proof (cases a)
    case None
    then show ?thesis using assms(1) run by (simp add: demangle_def)
  next
    case (Some p)
    have "r = butlast (str_split CHR ''\<newline>'' (stdout p))"
      using assms(1) run Some
      by (simp add: demangle_started [of popen names w p w'] split: if_splits)
    then have "x \<in> set (str_split CHR ''\<newline>'' (stdout p))"
      using assms(2) by (auto dest: in_set_butlastD)
    then show ?thesis by (rule str_split_no_sep)
  qed
qed

theorem demangle_result_no_newline_witness:
  "fst (demangle echo_tool [''main'', ''exit''] 0) = Inr [''main'', ''exit'']
   \<and> CHR ''\<newline>'' \<notin> set ''exit''"
  using demangle_result_no_newline [of echo_tool "[''main'', ''exit'']" 0 "[''main'', ''exit'']" "''exit''"]
  by (simp add: demangle_def echo_tool_def unlines_def str_split_def)

text \<open>
  C10. When the process ran, a call \<^verbatim>\<open>demangle(names)\<close> returns exactly when the
  captured text holds exactly \<open>len(names)\<close> newline characters. In particular, for a
  non-empty sequence of names: when the tool writes one line per name and the final
  line lacks its newline, the call fails with the assertion error instead of returning
  the \<open>len(names)\<close> segments.
\<close>

theorem demangle_succeeds_iff_newline_count:
  assumes "popen (''c++filt'' # names) w = (Some p, w')"
  shows "((\<exists>r. fst (demangle popen names w) = Inr r)
            \<longleftrightarrow> count_list (stdout p) CHR ''\<newline>'' = length names)
       \<and> (names \<noteq> [] \<and> length ls = length names \<and> (\<forall>l \<in> set ls. CHR ''\<newline>'' \<notin> set l)
            \<and> stdout p = butlast (unlines ls)
          \<longrightarrow> fst (demangle popen names w) = Inl AssertionError)"
proof -
  have run: "fst (demangle popen names w) =
      (if count_list (stdout p) CHR ''\<newline>'' = length names
       then Inr (butlast (str_split CHR ''\<newline>'' (stdout p))) else Inl AssertionError)"
    by (simp add: demangle_started [of popen names w p w', OF assms] str_split_length)
  have "count_list (stdout p) CHR ''\<newline>'' \<noteq> length names"
    if "names \<noteq> []" "length ls = length names" "\<forall>l \<in> set ls. CHR ''\<newline>'' \<notin> set l"
      "stdout p = butlast (unlines ls)"
  proof -
    have "ls \<noteq> []" using that(1,2) by auto
    then have "Suc (count_list (butlast (unlines ls)) CHR ''\<newline>'') = length ls"
      using that(3) by (simp add: count_list_butlast_unlines)
    then show ?thesis using that(2,4) by simp
  qed
  then show ?thesis using run by auto
qed

theorem demangle_succeeds_iff_newline_count_witness:
  "fst (demangle (fake_tool ''f()\<newline>g(int)'' 0) [''_Z1fv'', ''_Z1gi''] ()) = Inl AssertionError
   \<and> (\<exists>r. fst (demangle (fake_tool ''f()\<newline>g(int)\<newline>'' 0) [''_Z1fv'', ''_Z1gi''] ()) = Inr r)"
  using
    demangle_succeeds_iff_newline_count [of "fake_tool ''f()\<newline>g(int)'' 0"
      "[''_Z1fv'', ''_Z1gi'']" "()" "\<lparr>stdout = ''f()\<newline>g(int)'', returncode = 0\<rparr>" "()"
      "[''f()'', ''g(int)'']"]
    demangle_succeeds_iff_newline_count [of "fake_tool ''f()\<newline>g(int)\<newline>'' 0"
      "[''_Z1fv'', ''_Z1gi'']" "()" "\<lparr>stdout = ''f()\<newline>g(int)\<newline>'', returncode = 0\<rparr>" "()"
      "[]"]
  by (simp add: fake_tool_def unlines_def)

end
